theory Spec2Isabelle
  imports Main "HOL-Library.Sublist"
begin

section \<open>Go values shared by the scanners\<close>

text \<open>
  The Azure SDK structs hold almost every field behind a pointer. A pointer field is an
  \<open>option\<close> here (\<open>None\<close> is Go's \<open>nil\<close>), and dereferencing it is the function
  \<open>deref\<close>: reading through \<open>nil\<close> panics, which is the fault \<open>NilPointerDereference\<close>.
  \<open>log.Fatalf\<close> and zerolog's \<open>log.Fatal()\<close> print their message and exit the process; that
  is the fault \<open>Fatal\<close> with the message. A predicate or a scan that returns to its caller
  yields \<open>Inr\<close>.

  The elements of slices and of maps are taken to be present values (the SDK's
  \<open>[]*T\<close> and \<open>map[string]*T\<close> never hold a \<open>nil\<close> element after unmarshalling a
  response); only struct fields are optional.
\<close>

datatype fault = NilPointerDereference | Fatal string

fun deref :: "'a option \<Rightarrow> ('a \<Rightarrow> fault + 'b) \<Rightarrow> fault + 'b" where
  "deref None k = Inl NilPointerDereference"
| "deref (Some x) k = k x"

text \<open>\<open>strconv.FormatBool\<close>, \<open>strings.HasPrefix\<close>, \<open>strings.Contains\<close>.\<close>

definition FormatBool :: "bool \<Rightarrow> string" where
  "FormatBool b = (if b then ''true'' else ''false'')"

fun HasPrefix :: "string \<Rightarrow> string \<Rightarrow> bool" where
  "HasPrefix s [] = True"
| "HasPrefix [] (p # ps) = False"
| "HasPrefix (c # cs) (p # ps) = (c = p \<and> HasPrefix cs ps)"

fun Contains :: "string \<Rightarrow> string \<Rightarrow> bool" where
  "Contains [] substr = (substr = [])"
| "Contains (c # cs) substr = (HasPrefix (c # cs) substr \<or> Contains cs substr)"

text \<open>
  \<open>strings.ToLower\<close> on the ASCII letters, which is what Azure resource ids are made of:
  bytes outside \<open>A\<close>..\<open>Z\<close> are left as they are.
\<close>

definition upper_lower :: "(char \<times> char) list" where
  "upper_lower = zip ''ABCDEFGHIJKLMNOPQRSTUVWXYZ'' ''abcdefghijklmnopqrstuvwxyz''"

definition lower_char :: "char \<Rightarrow> char" where
  "lower_char c = (case map_of upper_lower c of Some l \<Rightarrow> l | None \<Rightarrow> c)"

definition ToLower :: "string \<Rightarrow> string" where
  "ToLower s = map lower_char s"

subsection \<open>Resources\<close>

text \<open>
  \<open>armeventhub.EHNamespace\<close>, \<open>armcontainerservice.ManagedCluster\<close>,
  \<open>armdatabricks.Workspace\<close> and the scale sets, SignalR services and container groups
  the scanners list all carry \<open>ID\<close>, \<open>Name\<close>, \<open>Type\<close>, \<open>Location\<close>, \<open>SKU\<close>,
  \<open>Tags\<close> and a \<open>Properties\<close> struct of their own; one record with the properties as a
  type parameter stands for all of them. The string-based enums of the SDK
  (\<open>SKUName\<close>, \<open>ManagedClusterSKUTier\<close>, \<open>OutboundType\<close>, \<open>NetworkPlugin\<close>) are strings.
\<close>

record Sku =
  SkuName :: "string option"
  Tier :: "string option"

record 'p Resource =
  ID :: "string option"
  Name :: "string option"
  Type :: "string option"
  Location :: "string option"
  SKU :: "Sku option"
  Tags :: "(string \<times> string) list option"
  Properties :: "'p option"

datatype PrivateEndpointConnection = PrivateEndpointConnection string

record EHNamespaceProperties =
  ZoneRedundant :: "bool option"
  evh_PrivateEndpointConnections :: "PrivateEndpointConnection list"

type_synonym EHNamespace = "EHNamespaceProperties Resource"

subsection \<open>Scan context and scanners\<close>

text \<open>
  \<open>ScanContext.DiagnosticsSettings\<close> is a Go map keyed by resource id. The older rule
  tables (Event Hub, AKS) do not read it: their scanner holds a \<open>diagnosticsSettings\<close>
  object and the rule asks its \<open>HasDiagnostics\<close> method, which is declared outside these
  sources and is therefore a function carried by the scanner; it returns the answer or an
  error (the error's text). The closure of such a rule captures the scanner pointer \<open>a\<close>
  and reads the field at each call: the rule takes the scanner's state at the time of the
  call as its first argument.
\<close>

record ScanContext =
  DiagnosticsSettings :: "string \<rightharpoonup> bool"

record DiagnosticsSettingsScanner =
  HasDiagnostics :: "string \<Rightarrow> string + bool"

record RuleScanner =
  diagnosticsSettings :: DiagnosticsSettingsScanner

type_synonym EventHubScanner = RuleScanner
type_synonym AKSScanner = RuleScanner

type_synonym 'r Eval = "'r \<Rightarrow> ScanContext \<Rightarrow> fault + (bool \<times> string)"

text \<open>
  A rule: \<open>azqr.AzqrRecommendation\<close> in the newer tables, \<open>scanners.AzureRule\<close> (whose
  identifier field is called \<open>Id\<close>) in the older ones. The record keeps the identifier
  and the predicate; the descriptive fields (resource type, category, severity or impact,
  description, URL) take no part in evaluation and are left out. A rule table is a Go map
  literal; it is kept as the list of its entries in the order they are written.
\<close>

record 'r AzqrRecommendation =
  RecommendationID :: string
  Eval :: "'r Eval"

type_synonym 'r AzureRule = "'r AzqrRecommendation"
type_synonym 'r RuleTable = "(string \<times> 'r AzqrRecommendation) list"

section \<open>Event Hub rules (evh/rules.go)\<close>

definition evh_001 :: "EventHubScanner \<Rightarrow> EHNamespace Eval" where
  "evh_001 a service scanContext =
     deref (ID service) (\<lambda>id.
       case HasDiagnostics (diagnosticsSettings a) id of
         Inl err \<Rightarrow>
           deref (Name service) (\<lambda>name.
             Inl (Fatal (''Error checking diagnostic settings for service '' @ name @ '': '' @ err)))
       | Inr hasDiagnostics \<Rightarrow> Inr (\<not> hasDiagnostics, FormatBool hasDiagnostics))"

definition evh_002 :: "EHNamespace Eval" where
  "evh_002 i scanContext =
     deref (Properties i) (\<lambda>p.
       deref (ZoneRedundant p) (\<lambda>zones. Inr (\<not> zones, FormatBool zones)))"

definition evh_003 :: "EHNamespace Eval" where
  "evh_003 i scanContext =
     deref (SKU i) (\<lambda>s.
       deref (SkuName s) (\<lambda>sku.
         Inr (False,
           if \<not> Contains sku ''Basic'' \<and> \<not> Contains sku ''Standard''
           then ''99.99%'' else ''99.95%'')))"

definition evh_004 :: "EHNamespace Eval" where
  "evh_004 i scanContext =
     deref (Properties i) (\<lambda>p.
       let pe = length (evh_PrivateEndpointConnections p) > 0
       in Inr (\<not> pe, FormatBool pe))"

definition evh_005 :: "EHNamespace Eval" where
  "evh_005 i scanContext =
     deref (SKU i) (\<lambda>s. deref (SkuName s) (\<lambda>sku. Inr (False, sku)))"

definition evh_006 :: "EHNamespace Eval" where
  "evh_006 c scanContext =
     deref (Name c) (\<lambda>name.
       let caf = HasPrefix name ''evh'' in Inr (\<not> caf, FormatBool caf))"

definition evh_GetRules :: "EventHubScanner \<Rightarrow> EHNamespace RuleTable" where
  "evh_GetRules a =
     [(''DiagnosticSettings'', \<lparr>RecommendationID = ''evh-001'', Eval = evh_001 a\<rparr>),
      (''AvailabilityZones'', \<lparr>RecommendationID = ''evh-002'', Eval = evh_002\<rparr>),
      (''SLA'', \<lparr>RecommendationID = ''evh-003'', Eval = evh_003\<rparr>),
      (''Private'', \<lparr>RecommendationID = ''evh-004'', Eval = evh_004\<rparr>),
      (''SKU'', \<lparr>RecommendationID = ''evh-005'', Eval = evh_005\<rparr>),
      (''CAF'', \<lparr>RecommendationID = ''evh-006'', Eval = evh_006\<rparr>)]"

section \<open>AKS rules (package aks)\<close>

record ManagedClusterAgentPoolProfile =
  AvailabilityZones :: "string list option"
  EnableAutoScaling :: "bool option"

record ManagedClusterAPIServerAccessProfile =
  EnablePrivateCluster :: "bool option"

record ManagedClusterAADProfile =
  Managed :: "bool option"

record ManagedClusterAddonProfile =
  Enabled :: "bool option"

record ContainerServiceNetworkProfile =
  OutboundType :: "string option"
  NetworkPlugin :: "string option"

record ManagedClusterProperties =
  AgentPoolProfiles :: "ManagedClusterAgentPoolProfile list option"
  APIServerAccessProfile :: "ManagedClusterAPIServerAccessProfile option"
  AADProfile :: "ManagedClusterAADProfile option"
  EnableRBAC :: "bool option"
  DisableLocalAccounts :: "bool option"
  AddonProfiles :: "string \<rightharpoonup> ManagedClusterAddonProfile"
  NetworkProfile :: "ContainerServiceNetworkProfile option"

type_synonym ManagedCluster = "ManagedClusterProperties Resource"

text \<open>
  The SDK's constants \<open>armcontainerservice.OutboundTypeUserDefinedRouting\<close> and
  \<open>armcontainerservice.NetworkPluginKubenet\<close>.
\<close>

definition OutboundTypeUserDefinedRouting :: string where
  "OutboundTypeUserDefinedRouting = ''userDefinedRouting''"

definition NetworkPluginKubenet :: string where
  "NetworkPluginKubenet = ''kubenet''"

text \<open>\<open>range\<close> over a slice: a \<open>nil\<close> slice has no elements.\<close>

fun range_of :: "'a list option \<Rightarrow> 'a list" where
  "range_of None = []"
| "range_of (Some xs) = xs"

definition aks_001 :: "AKSScanner \<Rightarrow> ManagedCluster Eval" where
  "aks_001 a service scanContext =
     deref (ID service) (\<lambda>id.
       case HasDiagnostics (diagnosticsSettings a) id of
         Inl err \<Rightarrow>
           deref (Name service) (\<lambda>name.
             Inl (Fatal (''Error checking diagnostic settings for service '' @ name @ '': '' @ err)))
       | Inr hasDiagnostics \<Rightarrow> Inr (\<not> hasDiagnostics, ''''))"

text \<open>
  The loop shared by aks-002 and aks-003: \<open>zones\<close> starts \<open>true\<close> and is cleared by every
  profile whose \<open>AvailabilityZones\<close> is \<open>nil\<close> or has at most one element.
\<close>

fun zones_loop :: "ManagedClusterAgentPoolProfile list \<Rightarrow> bool \<Rightarrow> bool" where
  "zones_loop [] zones = zones"
| "zones_loop (profile # rest) zones =
     zones_loop rest
       (case AvailabilityZones profile of
          None \<Rightarrow> False
        | Some z \<Rightarrow> if length z \<le> 1 then False else zones)"

definition aks_002 :: "ManagedCluster Eval" where
  "aks_002 cluster scanContext =
     deref (Properties cluster) (\<lambda>p.
       let zones = zones_loop (range_of (AgentPoolProfiles p)) True
       in Inr (\<not> zones, ''''))"

definition sku_tier :: "ManagedCluster \<Rightarrow> string" where
  "sku_tier c =
     (case SKU c of
        None \<Rightarrow> ''Free''
      | Some s \<Rightarrow> (case Tier s of None \<Rightarrow> ''Free'' | Some t \<Rightarrow> t))"

definition aks_003 :: "ManagedCluster Eval" where
  "aks_003 c scanContext =
     deref (Properties c) (\<lambda>p.
       let zones = zones_loop (range_of (AgentPoolProfiles p)) True;
           sku = sku_tier c;
           sla = (if \<not> Contains sku ''Free''
                  then (if zones then ''99.95%'' else ''99.9%'')
                  else ''None'')
       in Inr (sla = ''None'', sla))"

definition aks_004 :: "ManagedCluster Eval" where
  "aks_004 c scanContext =
     deref (Properties c) (\<lambda>p.
       let pe = (case APIServerAccessProfile p of
                   None \<Rightarrow> False
                 | Some ap \<Rightarrow> (case EnablePrivateCluster ap of None \<Rightarrow> False | Some b \<Rightarrow> b))
       in Inr (\<not> pe, ''''))"

definition aks_005 :: "ManagedCluster Eval" where
  "aks_005 c scanContext = (let sku = sku_tier c in Inr (sku = ''Free'', sku))"

definition aks_006 :: "ManagedCluster Eval" where
  "aks_006 c scanContext =
     deref (Name c) (\<lambda>name. let caf = HasPrefix name ''aks'' in Inr (\<not> caf, ''''))"

definition aks_007 :: "ManagedCluster Eval" where
  "aks_007 c scanContext =
     deref (Properties c) (\<lambda>p.
       let aad = (case AADProfile p of
                    None \<Rightarrow> False
                  | Some ap \<Rightarrow> (case Managed ap of None \<Rightarrow> False | Some b \<Rightarrow> b))
       in Inr (\<not> aad, ''''))"

definition aks_008 :: "ManagedCluster Eval" where
  "aks_008 c scanContext =
     deref (Properties c) (\<lambda>p. deref (EnableRBAC p) (\<lambda>rbac. Inr (\<not> rbac, '''')))"

definition aks_009 :: "ManagedCluster Eval" where
  "aks_009 c scanContext =
     deref (Properties c) (\<lambda>p.
       case DisableLocalAccounts p of
         None \<Rightarrow> Inr (True, '''')
       | Some d \<Rightarrow> if d then Inr (False, '''') else Inr (True, ''''))"

definition aks_010 :: "ManagedCluster Eval" where
  "aks_010 c scanContext =
     deref (Properties c) (\<lambda>p.
       case AddonProfiles p ''httpApplicationRouting'' of
         None \<Rightarrow> Inr (False, '''')
       | Some ap \<Rightarrow> deref (Enabled ap) (\<lambda>enabled. Inr (enabled, '''')))"

definition aks_011 :: "ManagedCluster Eval" where
  "aks_011 c scanContext =
     deref (Properties c) (\<lambda>p.
       case AddonProfiles p ''omsagent'' of
         None \<Rightarrow> Inr (True, '''')
       | Some ap \<Rightarrow> deref (Enabled ap) (\<lambda>enabled. Inr (\<not> enabled, '''')))"

definition aks_012 :: "ManagedCluster Eval" where
  "aks_012 c scanContext =
     deref (Properties c) (\<lambda>p.
       deref (NetworkProfile p) (\<lambda>np.
         deref (OutboundType np) (\<lambda>t.
           let out = (t = OutboundTypeUserDefinedRouting) in Inr (\<not> out, ''''))))"

definition aks_013 :: "ManagedCluster Eval" where
  "aks_013 c scanContext =
     deref (Properties c) (\<lambda>p.
       deref (NetworkProfile p) (\<lambda>np.
         deref (NetworkPlugin np) (\<lambda>t.
           let out = (t = NetworkPluginKubenet) in Inr (out, ''''))))"

text \<open>
  aks-014 returns from inside its loop: the body has no path that reaches a second
  iteration, so the loop yields a result at the first profile and \<open>None\<close> only when there
  is no profile.
\<close>

fun autoscale_loop :: "ManagedClusterAgentPoolProfile list \<Rightarrow> (bool \<times> string) option" where
  "autoscale_loop [] = None"
| "autoscale_loop (p # rest) =
     (case EnableAutoScaling p of
        Some e \<Rightarrow> Some (\<not> e, '''')
      | None \<Rightarrow> Some (True, ''''))"

definition aks_014 :: "ManagedCluster Eval" where
  "aks_014 c scanContext =
     deref (Properties c) (\<lambda>props.
       case AgentPoolProfiles props of
         None \<Rightarrow> Inr (True, '''')
       | Some profiles \<Rightarrow>
           (case autoscale_loop profiles of
              Some r \<Rightarrow> Inr r
            | None \<Rightarrow> Inr (True, '''')))"

definition aks_015 :: "ManagedCluster Eval" where
  "aks_015 c scanContext =
     Inr (case Tags c of None \<Rightarrow> True | Some t \<Rightarrow> length t = 0, '''')"

definition aks_GetRules :: "AKSScanner \<Rightarrow> ManagedCluster RuleTable" where
  "aks_GetRules a =
     [(''DiagnosticSettings'', \<lparr>RecommendationID = ''aks-001'', Eval = aks_001 a\<rparr>),
      (''AvailabilityZones'', \<lparr>RecommendationID = ''aks-002'', Eval = aks_002\<rparr>),
      (''SLA'', \<lparr>RecommendationID = ''aks-003'', Eval = aks_003\<rparr>),
      (''Private'', \<lparr>RecommendationID = ''aks-004'', Eval = aks_004\<rparr>),
      (''SKU'', \<lparr>RecommendationID = ''aks-005'', Eval = aks_005\<rparr>),
      (''CAF'', \<lparr>RecommendationID = ''aks-006'', Eval = aks_006\<rparr>),
      (''aks-007'', \<lparr>RecommendationID = ''aks-007'', Eval = aks_007\<rparr>),
      (''aks-008'', \<lparr>RecommendationID = ''aks-008'', Eval = aks_008\<rparr>),
      (''aks-009'', \<lparr>RecommendationID = ''aks-009'', Eval = aks_009\<rparr>),
      (''aks-010'', \<lparr>RecommendationID = ''aks-010'', Eval = aks_010\<rparr>),
      (''aks-011'', \<lparr>RecommendationID = ''aks-011'', Eval = aks_011\<rparr>),
      (''aks-012'', \<lparr>RecommendationID = ''aks-012'', Eval = aks_012\<rparr>),
      (''aks-013'', \<lparr>RecommendationID = ''aks-013'', Eval = aks_013\<rparr>),
      (''aks-014'', \<lparr>RecommendationID = ''aks-014'', Eval = aks_014\<rparr>),
      (''aks-015'', \<lparr>RecommendationID = ''aks-015'', Eval = aks_015\<rparr>)]"

section \<open>Databricks rules (package dbw)\<close>

text \<open>
  dbw-007 compares two \<open>*bool\<close> pointers, so the \<open>Value\<close> of a boolean parameter is kept
  as a pointer: an address into the memory of allocated \<open>bool\<close> cells (the list of their
  contents, a cell's address being its index). \<open>to.Ptr(v)\<close> allocates a new cell holding
  \<open>v\<close> and returns its address.
\<close>

type_synonym addr = nat
type_synonym memory = "bool list"

definition to_Ptr :: "bool \<Rightarrow> memory \<Rightarrow> addr \<times> memory" where
  "to_Ptr v m = (length m, m @ [v])"

record WorkspaceCustomBooleanParameter =
  Value :: "addr option"

record WorkspaceCustomParameters =
  EnableNoPublicIP :: "WorkspaceCustomBooleanParameter option"

record WorkspaceProperties =
  dbw_PrivateEndpointConnections :: "PrivateEndpointConnection list"
  Parameters :: "WorkspaceCustomParameters option"

type_synonym Workspace = "WorkspaceProperties Resource"

definition dbw_001 :: "Workspace Eval" where
  "dbw_001 service scanContext =
     deref (ID service) (\<lambda>id.
       let ok = (DiagnosticsSettings scanContext (ToLower id) \<noteq> None)
       in Inr (\<not> ok, ''''))"

definition dbw_003 :: "Workspace Eval" where
  "dbw_003 target scanContext = Inr (False, ''99.95%'')"

definition dbw_004 :: "Workspace Eval" where
  "dbw_004 i scanContext =
     deref (Properties i) (\<lambda>p.
       let pe = length (dbw_PrivateEndpointConnections p) > 0 in Inr (\<not> pe, ''''))"

definition dbw_005 :: "Workspace Eval" where
  "dbw_005 i scanContext =
     deref (SKU i) (\<lambda>s. deref (SkuName s) (\<lambda>sku. Inr (False, sku)))"

definition dbw_006 :: "Workspace Eval" where
  "dbw_006 c scanContext =
     deref (Name c) (\<lambda>name. let caf = HasPrefix name ''dbw'' in Inr (\<not> caf, ''''))"

text \<open>
  dbw-007 takes the memory in which it runs. When \<open>EnableNoPublicIP\<close> is \<open>nil\<close> the
  conjunction stops before \<open>to.Ptr\<close> is called.
\<close>

definition dbw_007 :: "memory \<Rightarrow> Workspace Eval" where
  "dbw_007 m c scanContext =
     deref (Properties c) (\<lambda>p.
       deref (Parameters p) (\<lambda>ps.
         case EnableNoPublicIP ps of
           None \<Rightarrow> Inr (False, '''')
         | Some e \<Rightarrow>
             (case to_Ptr True m of
                (q, m') \<Rightarrow> let broken = (Value e = Some q) in Inr (broken, ''''))))"

definition dbw_GetRecommendations :: "memory \<Rightarrow> Workspace RuleTable" where
  "dbw_GetRecommendations m =
     [(''dbw-001'', \<lparr>RecommendationID = ''dbw-001'', Eval = dbw_001\<rparr>),
      (''dbw-003'', \<lparr>RecommendationID = ''dbw-003'', Eval = dbw_003\<rparr>),
      (''dbw-004'', \<lparr>RecommendationID = ''dbw-004'', Eval = dbw_004\<rparr>),
      (''dbw-005'', \<lparr>RecommendationID = ''dbw-005'', Eval = dbw_005\<rparr>),
      (''dbw-006'', \<lparr>RecommendationID = ''dbw-006'', Eval = dbw_006\<rparr>),
      (''dbw-007'', \<lparr>RecommendationID = ''dbw-007'', Eval = dbw_007 m\<rparr>)]"

section \<open>The recommendation engine\<close>

text \<open>
  A row of the engine's result: the rule's id, the \<open>broken\<close> flag and the detail string
  (the fields \<open>ruleId\<close>, \<open>broken\<close>, \<open>detail\<close> of the specification's result row; the
  scanner adds the subscription, resource group and resource around the rows).
\<close>

record RuleResult =
  ruleId :: string
  broken :: bool
  detail :: string

text \<open>
  Modelled from the spec: \<open>azqr.RecommendationEngine.EvaluateRecommendations\<close> is called
  by every \<open>Scan\<close> but its code is not among the sources. The specification's contract
  (section 4.2): for each rule in the table, in the table's declared order, invoke the
  predicate with the resource and the shared context, and return one result row per rule.
  The engine handles no fault of a predicate: a predicate that panics or exits ends the
  call, as any Go call does.
\<close>

fun EvaluateRecommendations ::
  "'r RuleTable \<Rightarrow> 'r \<Rightarrow> ScanContext \<Rightarrow> fault + RuleResult list" where
  "EvaluateRecommendations [] target scanContext = Inr []"
| "EvaluateRecommendations ((key, rule) # rules) target scanContext =
     (case Eval rule target scanContext of
        Inl f \<Rightarrow> Inl f
      | Inr (b, d) \<Rightarrow>
          (case EvaluateRecommendations rules target scanContext of
             Inl f \<Rightarrow> Inl f
           | Inr rows \<Rightarrow>
               Inr (\<lparr>ruleId = RecommendationID rule, broken = b, detail = d\<rparr> # rows)))"

section \<open>Listing and scanning (vmss.go, ci.go, the SignalR scanner)\<close>

text \<open>
  A Go \<open>error\<close> is its text. A pager is the sequence of answers its \<open>NextPage\<close> calls
  give, each an error or a page of values; \<open>More()\<close> holds while answers remain. The
  listing loop (\<open>list\<close>, \<open>listSignalR\<close>, \<open>listInstances\<close>, and the loop at the head of
  \<open>ListRecommendations\<close>) appends page after page and returns \<open>nil\<close> with the error at the
  first failing page. A Go result pair \<open>(values, err)\<close> is a pair of a list and an
  optional error.
\<close>

type_synonym error = string
type_synonym 'a pager = "(error + 'a list) list"

fun list_pages :: "'a pager \<Rightarrow> 'a list \<Rightarrow> 'a list \<times> error option" where
  "list_pages [] acc = (acc, None)"
| "list_pages (Inl err # rest) acc = ([], Some err)"
| "list_pages (Inr v # rest) acc = list_pages rest (acc @ v)"

record ScannerConfig =
  SubscriptionID :: string
  SubscriptionName :: string

record AzqrServiceResult =
  sr_SubscriptionID :: string
  sr_SubscriptionName :: string
  sr_ResourceGroup :: string
  sr_ServiceName :: string
  sr_Type :: string
  sr_Location :: string
  sr_Recommendations :: "RuleResult list"

text \<open>
  A resource-group scanner (\<open>VirtualMachineScaleSetScanner\<close>, \<open>SignalRScanner\<close>,
  \<open>ContainerInstanceScanner\<close>): the configuration bound by \<open>Init\<close> and the SDK client, which
  gives the pager of a resource group. The three \<open>Scan\<close> methods are the same code up to
  the resource type; their rule tables (\<open>GetRecommendations\<close>) are not among the sources
  and are an argument. The log line written first is left out.
\<close>

record 'p ResourceScanner =
  config :: ScannerConfig
  client :: "string \<Rightarrow> 'p Resource pager"

definition list_resources :: "'p ResourceScanner \<Rightarrow> string \<Rightarrow> 'p Resource list \<times> error option" where
  "list_resources c resourceGroupName = list_pages (client c resourceGroupName) []"

fun scan_loop ::
  "'p ResourceScanner \<Rightarrow> 'p Resource RuleTable \<Rightarrow> string \<Rightarrow> ScanContext \<Rightarrow>
   'p Resource list \<Rightarrow> AzqrServiceResult list \<Rightarrow> fault + AzqrServiceResult list" where
  "scan_loop c rules resourceGroupName scanContext [] results = Inr results"
| "scan_loop c rules resourceGroupName scanContext (w # ws) results =
     (case EvaluateRecommendations rules w scanContext of
        Inl f \<Rightarrow> Inl f
      | Inr rr \<Rightarrow>
          deref (Name w) (\<lambda>name.
            deref (Type w) (\<lambda>type.
              deref (Location w) (\<lambda>location.
                scan_loop c rules resourceGroupName scanContext ws
                  (results @
                    [\<lparr>sr_SubscriptionID = SubscriptionID (config c),
                      sr_SubscriptionName = SubscriptionName (config c),
                      sr_ResourceGroup = resourceGroupName,
                      sr_ServiceName = name,
                      sr_Type = type,
                      sr_Location = location,
                      sr_Recommendations = rr\<rparr>])))))"

definition Scan ::
  "'p ResourceScanner \<Rightarrow> 'p Resource RuleTable \<Rightarrow> string \<Rightarrow> ScanContext \<Rightarrow>
   fault + (AzqrServiceResult list \<times> error option)" where
  "Scan c rules resourceGroupName scanContext =
     (case list_resources c resourceGroupName of
        (vmss, Some err) \<Rightarrow> Inr ([], Some err)
      | (vmss, None) \<Rightarrow>
          (case scan_loop c rules resourceGroupName scanContext vmss [] of
             Inl f \<Rightarrow> Inl f
           | Inr results \<Rightarrow> Inr (results, None)))"

section \<open>The Advisor scanner\<close>

record ShortDescription =
  Problem :: "string option"

record RecommendationProperties =
  ImpactedValue :: "string option"
  Category :: "string option"
  ShortDescription :: "ShortDescription option"
  ImpactedField :: "string option"
  PotentialBenefits :: "string option"
  Risk :: "string option"
  LearnMoreLink :: "string option"

record ResourceRecommendationBase =
  adv_Properties :: "RecommendationProperties option"

record AdvisorResult =
  ar_SubscriptionID :: string
  ar_SubscriptionName :: string
  ar_Name :: string
  ar_Type :: string
  ar_Category :: string
  ar_Description :: string
  ar_PotentialBenefits :: string
  ar_Risk :: string
  ar_LearnMoreLink :: string

type_synonym RecommendationsClient = "ResourceRecommendationBase pager"

record AdvisorScanner =
  adv_config :: ScannerConfig
  adv_client :: RecommendationsClient

text \<open>
  \<open>armadvisor.NewRecommendationsClient\<close> belongs to the SDK and
  \<open>azqr.ShouldSkipError\<close> is declared outside these sources: both are arguments.
\<close>

definition Init ::
  "(ScannerConfig \<Rightarrow> error + RecommendationsClient) \<Rightarrow> ScannerConfig \<Rightarrow> error + AdvisorScanner" where
  "Init NewRecommendationsClient cfg =
     (case NewRecommendationsClient cfg of
        Inl err \<Rightarrow> Inl err
      | Inr cl \<Rightarrow> Inr \<lparr>adv_config = cfg, adv_client = cl\<rparr>)"

text \<open>A field of the result keeps its zero value, the empty string, when its source is \<open>nil\<close>.\<close>

fun set_if_present :: "string option \<Rightarrow> string" where
  "set_if_present None = ''''"
| "set_if_present (Some v) = v"

definition to_AdvisorResult :: "ScannerConfig \<Rightarrow> RecommendationProperties \<Rightarrow> AdvisorResult" where
  "to_AdvisorResult cfg props =
     \<lparr>ar_SubscriptionID = SubscriptionID cfg,
      ar_SubscriptionName = SubscriptionName cfg,
      ar_Name = set_if_present (ImpactedValue props),
      ar_Type = set_if_present (ImpactedField props),
      ar_Category = set_if_present (Category props),
      ar_Description =
        (case ShortDescription props of
           None \<Rightarrow> ''''
         | Some sd \<Rightarrow> set_if_present (Problem sd)),
      ar_PotentialBenefits = set_if_present (PotentialBenefits props),
      ar_Risk = set_if_present (Risk props),
      ar_LearnMoreLink = set_if_present (LearnMoreLink props)\<rparr>"

fun convert_loop ::
  "ScannerConfig \<Rightarrow> ResourceRecommendationBase list \<Rightarrow> AdvisorResult list \<Rightarrow>
   fault + AdvisorResult list" where
  "convert_loop cfg [] returnRecommendations = Inr returnRecommendations"
| "convert_loop cfg (recommendation # rest) returnRecommendations =
     deref (adv_Properties recommendation) (\<lambda>props.
       convert_loop cfg rest (returnRecommendations @ [to_AdvisorResult cfg props]))"

definition ListRecommendations :: "AdvisorScanner \<Rightarrow> fault + (AdvisorResult list \<times> error option)" where
  "ListRecommendations s =
     (case list_pages (adv_client s) [] of
        (recommendations, Some err) \<Rightarrow> Inr ([], Some err)
      | (recommendations, None) \<Rightarrow>
          (case convert_loop (adv_config s) recommendations [] of
             Inl f \<Rightarrow> Inl f
           | Inr returnRecommendations \<Rightarrow> Inr (returnRecommendations, None)))"

definition AdvisorScanner_Scan ::
  "(error \<Rightarrow> bool) \<Rightarrow> (ScannerConfig \<Rightarrow> error + RecommendationsClient) \<Rightarrow>
   bool \<Rightarrow> ScannerConfig \<Rightarrow> fault + AdvisorResult list" where
  "AdvisorScanner_Scan ShouldSkipError NewRecommendationsClient scan cfg =
     (let advisorResults = [] in
      if scan then
        (case Init NewRecommendationsClient cfg of
           Inl err \<Rightarrow> Inl (Fatal ''Failed to initialize Advisor Scanner'')
         | Inr s \<Rightarrow>
             (case ListRecommendations s of
                Inl f \<Rightarrow> Inl f
              | Inr (rec, Some err) \<Rightarrow>
                  if ShouldSkipError err then Inr (advisorResults @ [])
                  else Inl (Fatal ''Failed to list Advisor recommendations'')
              | Inr (rec, None) \<Rightarrow> Inr (advisorResults @ rec)))
      else Inr advisorResults)"

section \<open>String helpers agree with the library's notions\<close>

lemma HasPrefix_prefix: "HasPrefix s p = prefix p s"
  by (induction s p rule: HasPrefix.induct) auto

lemma Contains_sublist: "Contains s substr = sublist substr s"
  by (induction s) (simp_all add: HasPrefix_prefix sublist_Cons_right)

section \<open>Facts about the helpers\<close>

lemma zones_loop_iff:
  "zones_loop ps b = (b \<and> (\<forall>pr \<in> set ps. \<exists>z. AvailabilityZones pr = Some z \<and> 2 \<le> length z))"
  by (induction ps arbitrary: b) (auto split: option.splits)

section \<open>Event Hub: the SLA rule\<close>

text \<open>
  C3, as amended. For an Event Hub namespace whose SKU and SKU name are present, evh-003
  returns \<open>broken = false\<close> always, with detail \<open>99.95%\<close> when the SKU name contains
  \<open>Basic\<close> or contains \<open>Standard\<close>, and \<open>99.99%\<close> for every other SKU name.
\<close>

theorem evh_003_sla:
  assumes "SKU i = Some s" and "SkuName s = Some sku"
  shows "evh_003 i scanContext =
           Inr (False, if Contains sku ''Basic'' \<or> Contains sku ''Standard''
                       then ''99.95%'' else ''99.99%'')"
  using assms by (simp add: evh_003_def)

theorem evh_003_sla_witness:
  "evh_003
     \<lparr>ID = Some ''/subscriptions/s1/resourceGroups/rg/providers/Microsoft.EventHub/namespaces/evh-a'',
      Name = Some ''evh-a'', Type = Some ''Microsoft.EventHub/namespaces'',
      Location = Some ''westeurope'',
      SKU = Some \<lparr>SkuName = Some ''Premium'', Tier = Some ''Premium''\<rparr>,
      Tags = None,
      Properties = Some \<lparr>ZoneRedundant = Some True, evh_PrivateEndpointConnections = []\<rparr>\<rparr>
     \<lparr>DiagnosticsSettings = Map.empty\<rparr>
   = Inr (False, ''99.99%'')"
  using evh_003_sla [of
     "\<lparr>ID = Some ''/subscriptions/s1/resourceGroups/rg/providers/Microsoft.EventHub/namespaces/evh-a'',
      Name = Some ''evh-a'', Type = Some ''Microsoft.EventHub/namespaces'',
      Location = Some ''westeurope'',
      SKU = Some \<lparr>SkuName = Some ''Premium'', Tier = Some ''Premium''\<rparr>,
      Tags = None,
      Properties = Some \<lparr>ZoneRedundant = Some True, evh_PrivateEndpointConnections = []\<rparr>\<rparr>"
     "\<lparr>SkuName = Some ''Premium'', Tier = Some ''Premium''\<rparr>" "''Premium''"
     "\<lparr>DiagnosticsSettings = Map.empty\<rparr>"]
  by simp

text \<open>
  The claim as first stated gives \<open>99.99%\<close> to every SKU name that does not contain
  \<open>Basic\<close>. The name \<open>Standard\<close> does not contain \<open>Basic\<close>, and the rule answers
  \<open>99.95%\<close>.
\<close>

theorem evh_003_standard_counterexample:
  "\<not> Contains ''Standard'' ''Basic'' \<and>
   evh_003
     \<lparr>ID = Some ''/subscriptions/s1/resourceGroups/rg/providers/Microsoft.EventHub/namespaces/evh-b'',
      Name = Some ''evh-b'', Type = Some ''Microsoft.EventHub/namespaces'',
      Location = Some ''westeurope'',
      SKU = Some \<lparr>SkuName = Some ''Standard'', Tier = Some ''Standard''\<rparr>,
      Tags = None,
      Properties = Some \<lparr>ZoneRedundant = Some False, evh_PrivateEndpointConnections = []\<rparr>\<rparr>
     \<lparr>DiagnosticsSettings = Map.empty\<rparr>
   = Inr (False, ''99.95%'')"
  by (simp add: evh_003_def)


section \<open>AKS: availability zones and SLA\<close>

text \<open>
  C4. For a managed cluster with properties: when some agent pool profile has
  \<open>AvailabilityZones\<close> of length 1, aks-002 returns \<open>broken = true\<close>. When the cluster is on a
  non-free tier (its SKU tier is present and does not contain \<open>Free\<close>), aks-003 returns
  detail \<open>99.9%\<close> if some profile has \<open>AvailabilityZones\<close> \<open>nil\<close> or of length at most 1,
  and detail \<open>99.95%\<close> if every profile has \<open>AvailabilityZones\<close> of length at least 2; in
  both cases the SLA rule is not broken.
\<close>

theorem aks_zones_and_sla:
  assumes "Properties c = Some p"
  shows "((\<exists>pr \<in> set (range_of (AgentPoolProfiles p)).
             \<exists>z. AvailabilityZones pr = Some z \<and> length z = 1)
          \<longrightarrow> aks_002 c scanContext = Inr (True, '''')) \<and>
         (\<forall>s t. SKU c = Some s \<and> Tier s = Some t \<and> \<not> Contains t ''Free'' \<longrightarrow>
            ((\<exists>pr \<in> set (range_of (AgentPoolProfiles p)).
                AvailabilityZones pr = None \<or>
                (\<exists>z. AvailabilityZones pr = Some z \<and> length z \<le> 1))
             \<longrightarrow> aks_003 c scanContext = Inr (False, ''99.9%'')) \<and>
            ((\<forall>pr \<in> set (range_of (AgentPoolProfiles p)).
                \<exists>z. AvailabilityZones pr = Some z \<and> 2 \<le> length z)
             \<longrightarrow> aks_003 c scanContext = Inr (False, ''99.95%'')))"
proof (intro conjI allI impI)
  assume "\<exists>pr \<in> set (range_of (AgentPoolProfiles p)).
            \<exists>z. AvailabilityZones pr = Some z \<and> length z = 1"
  then have "\<not> zones_loop (range_of (AgentPoolProfiles p)) True"
    by (fastforce simp: zones_loop_iff)
  with assms show "aks_002 c scanContext = Inr (True, '''')"
    by (simp add: aks_002_def)
next
  fix s t
  assume tier: "SKU c = Some s \<and> Tier s = Some t \<and> \<not> Contains t ''Free''"
  then have sku: "sku_tier c = t" and free: "\<not> Contains (sku_tier c) ''Free''"
    by (simp_all add: sku_tier_def)
  {
    assume "\<exists>pr \<in> set (range_of (AgentPoolProfiles p)).
              AvailabilityZones pr = None \<or>
              (\<exists>z. AvailabilityZones pr = Some z \<and> length z \<le> 1)"
    then have "\<not> zones_loop (range_of (AgentPoolProfiles p)) True"
      by (fastforce simp: zones_loop_iff)
    with assms free show "aks_003 c scanContext = Inr (False, ''99.9%'')"
      by (simp add: aks_003_def)
  }
  {
    assume "\<forall>pr \<in> set (range_of (AgentPoolProfiles p)).
              \<exists>z. AvailabilityZones pr = Some z \<and> 2 \<le> length z"
    then have "zones_loop (range_of (AgentPoolProfiles p)) True"
      by (simp add: zones_loop_iff)
    with assms free show "aks_003 c scanContext = Inr (False, ''99.95%'')"
      by (simp add: aks_003_def)
  }
qed

theorem aks_zones_and_sla_witness:
  "aks_002
     \<lparr>ID = Some ''/subscriptions/s1/resourceGroups/rg/providers/Microsoft.ContainerService/managedClusters/aks-a'',
      Name = Some ''aks-a'', Type = Some ''Microsoft.ContainerService/managedClusters'',
      Location = Some ''westeurope'',
      SKU = Some \<lparr>SkuName = Some ''Base'', Tier = Some ''Standard''\<rparr>,
      Tags = None,
      Properties = Some
        \<lparr>AgentPoolProfiles = Some
           [\<lparr>AvailabilityZones = Some [''1''], EnableAutoScaling = Some True\<rparr>],
         APIServerAccessProfile = None, AADProfile = None, EnableRBAC = Some True,
         DisableLocalAccounts = None, AddonProfiles = Map.empty, NetworkProfile = None\<rparr>\<rparr>
     \<lparr>DiagnosticsSettings = Map.empty\<rparr>
   = Inr (True, '''') \<and>
   aks_003
     \<lparr>ID = Some ''/subscriptions/s1/resourceGroups/rg/providers/Microsoft.ContainerService/managedClusters/aks-a'',
      Name = Some ''aks-a'', Type = Some ''Microsoft.ContainerService/managedClusters'',
      Location = Some ''westeurope'',
      SKU = Some \<lparr>SkuName = Some ''Base'', Tier = Some ''Standard''\<rparr>,
      Tags = None,
      Properties = Some
        \<lparr>AgentPoolProfiles = Some
           [\<lparr>AvailabilityZones = Some [''1''], EnableAutoScaling = Some True\<rparr>],
         APIServerAccessProfile = None, AADProfile = None, EnableRBAC = Some True,
         DisableLocalAccounts = None, AddonProfiles = Map.empty, NetworkProfile = None\<rparr>\<rparr>
     \<lparr>DiagnosticsSettings = Map.empty\<rparr>
   = Inr (False, ''99.9%'')"
  using aks_zones_and_sla [of
     "\<lparr>ID = Some ''/subscriptions/s1/resourceGroups/rg/providers/Microsoft.ContainerService/managedClusters/aks-a'',
      Name = Some ''aks-a'', Type = Some ''Microsoft.ContainerService/managedClusters'',
      Location = Some ''westeurope'',
      SKU = Some \<lparr>SkuName = Some ''Base'', Tier = Some ''Standard''\<rparr>,
      Tags = None,
      Properties = Some
        \<lparr>AgentPoolProfiles = Some
           [\<lparr>AvailabilityZones = Some [''1''], EnableAutoScaling = Some True\<rparr>],
         APIServerAccessProfile = None, AADProfile = None, EnableRBAC = Some True,
         DisableLocalAccounts = None, AddonProfiles = Map.empty, NetworkProfile = None\<rparr>\<rparr>"
     "\<lparr>AgentPoolProfiles = Some
           [\<lparr>AvailabilityZones = Some [''1''], EnableAutoScaling = Some True\<rparr>],
         APIServerAccessProfile = None, AADProfile = None, EnableRBAC = Some True,
         DisableLocalAccounts = None, AddonProfiles = Map.empty, NetworkProfile = None\<rparr>"
     "\<lparr>DiagnosticsSettings = Map.empty\<rparr>"]
  by simp

section \<open>AKS: the autoscaler rule\<close>

text \<open>
  C10. For a managed cluster with properties and a non-empty \<open>AgentPoolProfiles\<close> list,
  aks-014 is decided by the first profile alone: broken exactly when that profile's
  \<open>EnableAutoScaling\<close> is \<open>nil\<close> or \<open>false\<close>, whatever the later profiles are. A \<open>nil\<close> or
  empty list gives \<open>broken = true\<close>.
\<close>

theorem aks_014_first_profile:
  assumes "Properties c = Some p"
  shows "(\<forall>pr rest. AgentPoolProfiles p = Some (pr # rest) \<longrightarrow>
            aks_014 c scanContext =
              Inr (EnableAutoScaling pr = None \<or> EnableAutoScaling pr = Some False, '''')) \<and>
         (AgentPoolProfiles p = None \<or> AgentPoolProfiles p = Some [] \<longrightarrow>
            aks_014 c scanContext = Inr (True, ''''))"
  using assms by (auto simp: aks_014_def split: option.splits)

theorem aks_014_first_profile_witness:
  "aks_014
     \<lparr>ID = Some ''/subscriptions/s1/resourceGroups/rg/providers/Microsoft.ContainerService/managedClusters/aks-b'',
      Name = Some ''aks-b'', Type = Some ''Microsoft.ContainerService/managedClusters'',
      Location = Some ''westeurope'', SKU = None, Tags = None,
      Properties = Some
        \<lparr>AgentPoolProfiles = Some
           [\<lparr>AvailabilityZones = None, EnableAutoScaling = Some True\<rparr>,
            \<lparr>AvailabilityZones = None, EnableAutoScaling = Some False\<rparr>,
            \<lparr>AvailabilityZones = None, EnableAutoScaling = None\<rparr>],
         APIServerAccessProfile = None, AADProfile = None, EnableRBAC = None,
         DisableLocalAccounts = None, AddonProfiles = Map.empty, NetworkProfile = None\<rparr>\<rparr>
     \<lparr>DiagnosticsSettings = Map.empty\<rparr>
   = Inr (False, '''')"
  using aks_014_first_profile [of
     "\<lparr>ID = Some ''/subscriptions/s1/resourceGroups/rg/providers/Microsoft.ContainerService/managedClusters/aks-b'',
      Name = Some ''aks-b'', Type = Some ''Microsoft.ContainerService/managedClusters'',
      Location = Some ''westeurope'', SKU = None, Tags = None,
      Properties = Some
        \<lparr>AgentPoolProfiles = Some
           [\<lparr>AvailabilityZones = None, EnableAutoScaling = Some True\<rparr>,
            \<lparr>AvailabilityZones = None, EnableAutoScaling = Some False\<rparr>,
            \<lparr>AvailabilityZones = None, EnableAutoScaling = None\<rparr>],
         APIServerAccessProfile = None, AADProfile = None, EnableRBAC = None,
         DisableLocalAccounts = None, AddonProfiles = Map.empty, NetworkProfile = None\<rparr>\<rparr>"
     "\<lparr>AgentPoolProfiles = Some
           [\<lparr>AvailabilityZones = None, EnableAutoScaling = Some True\<rparr>,
            \<lparr>AvailabilityZones = None, EnableAutoScaling = Some False\<rparr>,
            \<lparr>AvailabilityZones = None, EnableAutoScaling = None\<rparr>],
         APIServerAccessProfile = None, AADProfile = None, EnableRBAC = None,
         DisableLocalAccounts = None, AddonProfiles = Map.empty, NetworkProfile = None\<rparr>"
     "\<lparr>DiagnosticsSettings = Map.empty\<rparr>"]
  by simp

section \<open>Databricks: the public IP rule\<close>

text \<open>
  C9. For a Databricks workspace whose \<open>Properties\<close> and \<open>Properties.Parameters\<close> are
  present, dbw-007 returns \<open>(false, "")\<close> whatever \<open>EnableNoPublicIP\<close> holds: its \<open>Value\<close>
  pointer, when not \<open>nil\<close>, addresses a cell allocated before the call, and the pointer it
  is compared with is the one \<open>to.Ptr(true)\<close> has just allocated.
\<close>

theorem dbw_007_never_broken:
  assumes "Properties c = Some p" and "Parameters p = Some ps"
    and "\<forall>e a. EnableNoPublicIP ps = Some e \<and> Value e = Some a \<longrightarrow> a < length m"
  shows "dbw_007 m c scanContext = Inr (False, '''')"
  using assms by (auto simp: dbw_007_def to_Ptr_def split: option.splits)

theorem dbw_007_never_broken_witness:
  "dbw_007 [True]
     \<lparr>ID = Some ''/subscriptions/s1/resourceGroups/rg/providers/Microsoft.Databricks/workspaces/dbw-a'',
      Name = Some ''dbw-a'', Type = Some ''Microsoft.Databricks/workspaces'',
      Location = Some ''westeurope'', SKU = None, Tags = None,
      Properties = Some
        \<lparr>dbw_PrivateEndpointConnections = [],
         Parameters = Some \<lparr>EnableNoPublicIP = Some \<lparr>Value = Some 0\<rparr>\<rparr>\<rparr>\<rparr>
     \<lparr>DiagnosticsSettings = Map.empty\<rparr>
   = Inr (False, '''')"
  using dbw_007_never_broken [of
     "\<lparr>ID = Some ''/subscriptions/s1/resourceGroups/rg/providers/Microsoft.Databricks/workspaces/dbw-a'',
      Name = Some ''dbw-a'', Type = Some ''Microsoft.Databricks/workspaces'',
      Location = Some ''westeurope'', SKU = None, Tags = None,
      Properties = Some
        \<lparr>dbw_PrivateEndpointConnections = [],
         Parameters = Some \<lparr>EnableNoPublicIP = Some \<lparr>Value = Some 0\<rparr>\<rparr>\<rparr>\<rparr>"
     "\<lparr>dbw_PrivateEndpointConnections = [],
         Parameters = Some \<lparr>EnableNoPublicIP = Some \<lparr>Value = Some 0\<rparr>\<rparr>\<rparr>"
     "\<lparr>EnableNoPublicIP = Some \<lparr>Value = Some 0\<rparr>\<rparr>" "[True]"
     "\<lparr>DiagnosticsSettings = Map.empty\<rparr>"]
  by simp


section \<open>Databricks: the diagnostic settings rule\<close>






section \<open>The engine: one row per rule, in table order\<close>




section \<open>Scanning a resource group\<close>

lemma list_pages_all:
  "list_pages (map Inr pages) acc = (acc @ concat pages, None)"
  by (induction pages arbitrary: acc) simp_all

lemma list_pages_fails:
  "list_pages (map Inr pages @ Inl err # rest) acc = ([], Some err)"
  by (induction pages arbitrary: acc) simp_all

lemma scan_loop_results:
  assumes "\<forall>w \<in> set ws. \<exists>n t l rr.
             Name w = Some n \<and> Type w = Some t \<and> Location w = Some l \<and>
             EvaluateRecommendations rules w scanContext = Inr rr"
  shows "\<exists>out. scan_loop c rules rg scanContext ws results = Inr (results @ out) \<and>
           length out = length ws \<and>
           (\<forall>i < length ws. \<exists>n t l rr.
              Name (ws ! i) = Some n \<and> Type (ws ! i) = Some t \<and> Location (ws ! i) = Some l \<and>
              EvaluateRecommendations rules (ws ! i) scanContext = Inr rr \<and>
              out ! i =
                \<lparr>sr_SubscriptionID = SubscriptionID (config c),
                 sr_SubscriptionName = SubscriptionName (config c),
                 sr_ResourceGroup = rg,
                 sr_ServiceName = n, sr_Type = t, sr_Location = l,
                 sr_Recommendations = rr\<rparr>)"
  using assms
proof (induction ws arbitrary: results)
  case Nil
  then show ?case by simp
next
  case (Cons w ws)
  from Cons.prems obtain n t l rr where
    w: "Name w = Some n" "Type w = Some t" "Location w = Some l"
       "EvaluateRecommendations rules w scanContext = Inr rr"
    by auto
  let ?r = "\<lparr>sr_SubscriptionID = SubscriptionID (config c),
             sr_SubscriptionName = SubscriptionName (config c),
             sr_ResourceGroup = rg,
             sr_ServiceName = n, sr_Type = t, sr_Location = l,
             sr_Recommendations = rr\<rparr>"
  from Cons.prems have rest: "\<forall>w \<in> set ws. \<exists>n t l rr.
             Name w = Some n \<and> Type w = Some t \<and> Location w = Some l \<and>
             EvaluateRecommendations rules w scanContext = Inr rr"
    by simp
  from Cons.IH [OF rest, of "results @ [?r]"] obtain out where
    run: "scan_loop c rules rg scanContext ws (results @ [?r]) = Inr ((results @ [?r]) @ out)" and
    len: "length out = length ws" and
    each: "\<forall>i < length ws. \<exists>n t l rr.
              Name (ws ! i) = Some n \<and> Type (ws ! i) = Some t \<and> Location (ws ! i) = Some l \<and>
              EvaluateRecommendations rules (ws ! i) scanContext = Inr rr \<and>
              out ! i =
                \<lparr>sr_SubscriptionID = SubscriptionID (config c),
                 sr_SubscriptionName = SubscriptionName (config c),
                 sr_ResourceGroup = rg,
                 sr_ServiceName = n, sr_Type = t, sr_Location = l,
                 sr_Recommendations = rr\<rparr>"
    by blast
  have "scan_loop c rules rg scanContext (w # ws) results = Inr (results @ (?r # out))"
    using w run by simp
  moreover have "length (?r # out) = length (w # ws)"
    using len by simp
  moreover have "\<forall>i < length (w # ws). \<exists>n t l rr.
              Name ((w # ws) ! i) = Some n \<and> Type ((w # ws) ! i) = Some t \<and>
              Location ((w # ws) ! i) = Some l \<and>
              EvaluateRecommendations rules ((w # ws) ! i) scanContext = Inr rr \<and>
              (?r # out) ! i =
                \<lparr>sr_SubscriptionID = SubscriptionID (config c),
                 sr_SubscriptionName = SubscriptionName (config c),
                 sr_ResourceGroup = rg,
                 sr_ServiceName = n, sr_Type = t, sr_Location = l,
                 sr_Recommendations = rr\<rparr>"
  proof (intro allI impI)
    fix i
    assume "i < length (w # ws)"
    then show "\<exists>n t l rr.
              Name ((w # ws) ! i) = Some n \<and> Type ((w # ws) ! i) = Some t \<and>
              Location ((w # ws) ! i) = Some l \<and>
              EvaluateRecommendations rules ((w # ws) ! i) scanContext = Inr rr \<and>
              (?r # out) ! i =
                \<lparr>sr_SubscriptionID = SubscriptionID (config c),
                 sr_SubscriptionName = SubscriptionName (config c),
                 sr_ResourceGroup = rg,
                 sr_ServiceName = n, sr_Type = t, sr_Location = l,
                 sr_Recommendations = rr\<rparr>"
      using w each by (cases i) simp_all
  qed
  ultimately show ?case by blast
qed

text \<open>
  C7. When every page of the listing of a resource group arrives, \<open>Scan\<close> returns, with
  no error, one service result per listed resource, in the order of the pages and of the
  resources within them; the \<open>i\<close>-th result carries the configured subscription id and
  name, the resource group scanned, the name, type and location of the \<open>i\<close>-th resource
  and the engine's rows for it. This is for resources that carry a name, a type and a
  location and on which the engine returns. When a page of the listing fails, \<open>Scan\<close>
  returns no result and that error.
\<close>

theorem Scan_results:
  "(client c rg = map Inr pages \<and>
    (\<forall>w \<in> set (concat pages). \<exists>n t l rr.
        Name w = Some n \<and> Type w = Some t \<and> Location w = Some l \<and>
        EvaluateRecommendations rules w scanContext = Inr rr)
    \<longrightarrow> (\<exists>results.
          Scan c rules rg scanContext = Inr (results, None) \<and>
          length results = length (concat pages) \<and>
          (\<forall>i < length (concat pages). \<exists>n t l rr.
              Name (concat pages ! i) = Some n \<and> Type (concat pages ! i) = Some t \<and>
              Location (concat pages ! i) = Some l \<and>
              EvaluateRecommendations rules (concat pages ! i) scanContext = Inr rr \<and>
              results ! i =
                \<lparr>sr_SubscriptionID = SubscriptionID (config c),
                 sr_SubscriptionName = SubscriptionName (config c),
                 sr_ResourceGroup = rg,
                 sr_ServiceName = n, sr_Type = t, sr_Location = l,
                 sr_Recommendations = rr\<rparr>))) \<and>
   (client c rg = map Inr pages @ Inl err # rest
    \<longrightarrow> Scan c rules rg scanContext = Inr ([], Some err))"
proof (intro conjI impI)
  assume a: "client c rg = map Inr pages \<and>
    (\<forall>w \<in> set (concat pages). \<exists>n t l rr.
        Name w = Some n \<and> Type w = Some t \<and> Location w = Some l \<and>
        EvaluateRecommendations rules w scanContext = Inr rr)"
  then have listed: "list_resources c rg = (concat pages, None)"
    by (simp add: list_resources_def list_pages_all)
  from a scan_loop_results [of "concat pages" rules scanContext c rg "[]"]
  obtain out where
    run: "scan_loop c rules rg scanContext (concat pages) [] = Inr ([] @ out)" and
    rest: "length out = length (concat pages)"
      "\<forall>i < length (concat pages). \<exists>n t l rr.
              Name (concat pages ! i) = Some n \<and> Type (concat pages ! i) = Some t \<and>
              Location (concat pages ! i) = Some l \<and>
              EvaluateRecommendations rules (concat pages ! i) scanContext = Inr rr \<and>
              out ! i =
                \<lparr>sr_SubscriptionID = SubscriptionID (config c),
                 sr_SubscriptionName = SubscriptionName (config c),
                 sr_ResourceGroup = rg,
                 sr_ServiceName = n, sr_Type = t, sr_Location = l,
                 sr_Recommendations = rr\<rparr>"
    by blast
  have "Scan c rules rg scanContext = Inr (out, None)"
    using listed run by (simp add: Scan_def)
  with rest show "\<exists>results.
          Scan c rules rg scanContext = Inr (results, None) \<and>
          length results = length (concat pages) \<and>
          (\<forall>i < length (concat pages). \<exists>n t l rr.
              Name (concat pages ! i) = Some n \<and> Type (concat pages ! i) = Some t \<and>
              Location (concat pages ! i) = Some l \<and>
              EvaluateRecommendations rules (concat pages ! i) scanContext = Inr rr \<and>
              results ! i =
                \<lparr>sr_SubscriptionID = SubscriptionID (config c),
                 sr_SubscriptionName = SubscriptionName (config c),
                 sr_ResourceGroup = rg,
                 sr_ServiceName = n, sr_Type = t, sr_Location = l,
                 sr_Recommendations = rr\<rparr>)"
    by blast
next
  assume "client c rg = map Inr pages @ Inl err # rest"
  then show "Scan c rules rg scanContext = Inr ([], Some err)"
    by (simp add: Scan_def list_resources_def list_pages_fails)
qed

theorem Scan_results_witness:
  "Scan
     \<lparr>config = \<lparr>SubscriptionID = ''s1'', SubscriptionName = ''prod''\<rparr>,
      client = (\<lambda>rg.
        [Inr [\<lparr>ID = Some ''/s1/rg/b'', Name = Some ''b'', Type = Some ''T'',
               Location = Some ''west'', SKU = None, Tags = None,
               Properties = None :: WorkspaceProperties option\<rparr>],
         Inr [\<lparr>ID = Some ''/s1/rg/a'', Name = Some ''a'', Type = Some ''T'',
               Location = Some ''east'', SKU = None, Tags = None, Properties = None\<rparr>]])\<rparr>
     [(''dbw-003'', \<lparr>RecommendationID = ''dbw-003'', Eval = dbw_003\<rparr>)]
     ''rg'' \<lparr>DiagnosticsSettings = Map.empty\<rparr>
   = Inr ([\<lparr>sr_SubscriptionID = ''s1'', sr_SubscriptionName = ''prod'', sr_ResourceGroup = ''rg'',
            sr_ServiceName = ''b'', sr_Type = ''T'', sr_Location = ''west'',
            sr_Recommendations = [\<lparr>ruleId = ''dbw-003'', broken = False, detail = ''99.95%''\<rparr>]\<rparr>,
           \<lparr>sr_SubscriptionID = ''s1'', sr_SubscriptionName = ''prod'', sr_ResourceGroup = ''rg'',
            sr_ServiceName = ''a'', sr_Type = ''T'', sr_Location = ''east'',
            sr_Recommendations = [\<lparr>ruleId = ''dbw-003'', broken = False, detail = ''99.95%''\<rparr>]\<rparr>],
          None) \<and>
   Scan
     \<lparr>config = \<lparr>SubscriptionID = ''s1'', SubscriptionName = ''prod''\<rparr>,
      client = (\<lambda>rg.
        [Inr [\<lparr>ID = Some ''/s1/rg/b'', Name = Some ''b'', Type = Some ''T'',
               Location = Some ''west'', SKU = None, Tags = None,
               Properties = None :: WorkspaceProperties option\<rparr>],
         Inl ''throttled''])\<rparr>
     [(''dbw-003'', \<lparr>RecommendationID = ''dbw-003'', Eval = dbw_003\<rparr>)]
     ''rg'' \<lparr>DiagnosticsSettings = Map.empty\<rparr>
   = Inr ([], Some ''throttled'')"
  using
    Scan_results [of
     "\<lparr>config = \<lparr>SubscriptionID = ''s1'', SubscriptionName = ''prod''\<rparr>,
      client = (\<lambda>rg.
        [Inr [\<lparr>ID = Some ''/s1/rg/b'', Name = Some ''b'', Type = Some ''T'',
               Location = Some ''west'', SKU = None, Tags = None,
               Properties = None :: WorkspaceProperties option\<rparr>],
         Inr [\<lparr>ID = Some ''/s1/rg/a'', Name = Some ''a'', Type = Some ''T'',
               Location = Some ''east'', SKU = None, Tags = None, Properties = None\<rparr>]])\<rparr>"
     "''rg''"
     "[[\<lparr>ID = Some ''/s1/rg/b'', Name = Some ''b'', Type = Some ''T'',
               Location = Some ''west'', SKU = None, Tags = None,
               Properties = None :: WorkspaceProperties option\<rparr>],
       [\<lparr>ID = Some ''/s1/rg/a'', Name = Some ''a'', Type = Some ''T'',
               Location = Some ''east'', SKU = None, Tags = None, Properties = None\<rparr>]]"
     "[(''dbw-003'', \<lparr>RecommendationID = ''dbw-003'', Eval = dbw_003\<rparr>)]"
     "\<lparr>DiagnosticsSettings = Map.empty\<rparr>"]
    Scan_results [of
     "\<lparr>config = \<lparr>SubscriptionID = ''s1'', SubscriptionName = ''prod''\<rparr>,
      client = (\<lambda>rg.
        [Inr [\<lparr>ID = Some ''/s1/rg/b'', Name = Some ''b'', Type = Some ''T'',
               Location = Some ''west'', SKU = None, Tags = None,
               Properties = None :: WorkspaceProperties option\<rparr>],
         Inl ''throttled''])\<rparr>"
     "''rg''"
     "[[\<lparr>ID = Some ''/s1/rg/b'', Name = Some ''b'', Type = Some ''T'',
               Location = Some ''west'', SKU = None, Tags = None,
               Properties = None :: WorkspaceProperties option\<rparr>]]"
     _ _ "''throttled''" "[]"]
  by (simp add: Scan_def list_resources_def dbw_003_def)


section \<open>The Advisor scanner: skippable and fatal errors\<close>

text \<open>
  C6, as amended. When a page of the Advisor listing fails with an error,
  \<open>AdvisorScanner.Scan\<close> returns the empty result list if \<open>ShouldSkipError\<close> marks the
  error skippable; if it does not, \<open>Scan\<close> logs the error with \<open>log.Fatal\<close> and the process
  exits. An error of \<open>Init\<close> is fatal in the same way, whatever the classifier says.
\<close>

theorem AdvisorScanner_Scan_errors:
  "(NewRecommendationsClient cfg = Inr (map Inr pages @ Inl err # rest) \<longrightarrow>
      AdvisorScanner_Scan ShouldSkipError NewRecommendationsClient True cfg =
        (if ShouldSkipError err then Inr []
         else Inl (Fatal ''Failed to list Advisor recommendations''))) \<and>
   (NewRecommendationsClient cfg = Inl err \<longrightarrow>
      AdvisorScanner_Scan ShouldSkipError NewRecommendationsClient True cfg =
        Inl (Fatal ''Failed to initialize Advisor Scanner''))"
  by (simp add: AdvisorScanner_Scan_def Init_def ListRecommendations_def list_pages_fails)

theorem AdvisorScanner_Scan_errors_witness:
  "AdvisorScanner_Scan (\<lambda>err. err = ''AuthorizationFailed'')
     (\<lambda>cfg. Inr [Inr [\<lparr>adv_Properties = None\<rparr>], Inl ''AuthorizationFailed''])
     True \<lparr>SubscriptionID = ''s1'', SubscriptionName = ''prod''\<rparr> = Inr [] \<and>
   AdvisorScanner_Scan (\<lambda>err. err = ''AuthorizationFailed'')
     (\<lambda>cfg. Inl ''no credential'')
     True \<lparr>SubscriptionID = ''s1'', SubscriptionName = ''prod''\<rparr> =
     Inl (Fatal ''Failed to initialize Advisor Scanner'')"
  using
    AdvisorScanner_Scan_errors [of
      "\<lambda>cfg. Inr [Inr [\<lparr>adv_Properties = None\<rparr>], Inl ''AuthorizationFailed'']"
      "\<lparr>SubscriptionID = ''s1'', SubscriptionName = ''prod''\<rparr>"
      "[[\<lparr>adv_Properties = None\<rparr>]]" "''AuthorizationFailed''" "[]"
      "\<lambda>err. err = ''AuthorizationFailed''"]
    AdvisorScanner_Scan_errors [of
      "\<lambda>cfg. Inl ''no credential''"
      "\<lparr>SubscriptionID = ''s1'', SubscriptionName = ''prod''\<rparr>"
      "[]" "''no credential''" "[]"
      "\<lambda>err. err = ''AuthorizationFailed''"]
  by simp

text \<open>
  The claim as first stated has an error that is not skippable recorded without ending
  the run. A listing that fails with such an error ends the process.
\<close>

theorem AdvisorScanner_Scan_fatal_counterexample:
  "AdvisorScanner_Scan (\<lambda>err. err = ''AuthorizationFailed'')
     (\<lambda>cfg. Inr [Inl ''connection reset''])
     True \<lparr>SubscriptionID = ''s1'', SubscriptionName = ''prod''\<rparr> =
     Inl (Fatal ''Failed to list Advisor recommendations'')"
  by (simp add: AdvisorScanner_Scan_def Init_def ListRecommendations_def)


section \<open>Rule predicates: where they return and where the process ends\<close>

lemma evh_rules_return:
  assumes "ID r = Some rid" and "Name r = Some n" and "SKU r = Some s" and "SkuName s = Some k"
    and "Properties r = Some p" and "ZoneRedundant p = Some z"
    and "HasDiagnostics (diagnosticsSettings a) rid = Inr h"
  shows "\<forall>entry \<in> set (evh_GetRules a). \<exists>b d. Eval (snd entry) r scanContext = Inr (b, d)"
  using assms
  by (auto simp: evh_GetRules_def evh_001_def evh_002_def evh_003_def evh_004_def evh_005_def
        evh_006_def Let_def)

lemma aks_rules_return:
  assumes "ID c = Some rid" and "Name c = Some n" and "Properties c = Some p"
    and "EnableRBAC p = Some rbac" and "NetworkProfile p = Some np"
    and "OutboundType np = Some ot" and "NetworkPlugin np = Some pl"
    and "\<forall>ap. AddonProfiles p ''httpApplicationRouting'' = Some ap \<longrightarrow> Enabled ap \<noteq> None"
    and "\<forall>ap. AddonProfiles p ''omsagent'' = Some ap \<longrightarrow> Enabled ap \<noteq> None"
    and "HasDiagnostics (diagnosticsSettings a) rid = Inr h"
  shows "\<forall>entry \<in> set (aks_GetRules a). \<exists>b d. Eval (snd entry) c scanContext = Inr (b, d)"
proof -
  have r10: "\<exists>b d. aks_010 c scanContext = Inr (b, d)"
    using assms by (auto simp: aks_010_def split: option.splits)
  have r11: "\<exists>b d. aks_011 c scanContext = Inr (b, d)"
    using assms by (auto simp: aks_011_def split: option.splits)
  have r14: "\<exists>b d. aks_014 c scanContext = Inr (b, d)"
    using assms by (cases "aks_014 c scanContext") (auto simp: aks_014_def split: option.splits)
  have r09: "\<exists>b d. aks_009 c scanContext = Inr (b, d)"
    using assms by (auto simp: aks_009_def split: option.splits)
  show ?thesis
    using assms r09 r10 r11 r14
    by (simp add: aks_GetRules_def aks_001_def aks_002_def aks_003_def aks_004_def aks_005_def
          aks_006_def aks_007_def aks_008_def aks_012_def aks_013_def
          aks_015_def Let_def)
qed

lemma dbw_rules_return:
  assumes "ID w = Some rid" and "Name w = Some n" and "SKU w = Some s" and "SkuName s = Some k"
    and "Properties w = Some p" and "Parameters p = Some ps"
  shows "\<forall>entry \<in> set (dbw_GetRecommendations m). \<exists>b d. Eval (snd entry) w scanContext = Inr (b, d)"
proof -
  have r7: "\<exists>b d. dbw_007 m w scanContext = Inr (b, d)"
    using assms by (auto simp: dbw_007_def to_Ptr_def split: option.splits)
  show ?thesis
    using assms r7
    by (auto simp: dbw_GetRecommendations_def dbw_001_def dbw_003_def dbw_004_def dbw_005_def
          dbw_006_def Let_def)
qed

lemma evh_001_lookup_fatal:
  assumes "ID r = Some rid" and "Name r = Some n"
    and "HasDiagnostics (diagnosticsSettings a) rid = Inl err"
  shows "evh_001 a r scanContext =
           Inl (Fatal (''Error checking diagnostic settings for service '' @ n @ '': '' @ err))"
  using assms by (simp add: evh_001_def)

lemma aks_001_lookup_fatal:
  assumes "ID c = Some rid" and "Name c = Some n"
    and "HasDiagnostics (diagnosticsSettings a) rid = Inl err"
  shows "aks_001 a c scanContext =
           Inl (Fatal (''Error checking diagnostic settings for service '' @ n @ '': '' @ err))"
  using assms by (simp add: aks_001_def)

text \<open>
  C5, as amended. Every rule predicate of the Event Hub, AKS and Databricks tables
  returns a \<open>(broken, detail)\<close> result on a resource whose unguarded fields are populated
  (Event Hub: \<open>ID\<close>, \<open>Name\<close>, \<open>SKU.Name\<close>, \<open>Properties.ZoneRedundant\<close>; AKS: \<open>ID\<close>, \<open>Name\<close>,
  \<open>Properties.EnableRBAC\<close>, the network profile's outbound type and plugin, \<open>Enabled\<close> of
  the two addon profiles looked up; Databricks: \<open>ID\<close>, \<open>Name\<close>, \<open>SKU.Name\<close>,
  \<open>Properties.Parameters\<close>), provided the diagnostics lookup of evh-001 and aks-001 gives an
  answer. The fields a predicate guards may be \<open>nil\<close> and then count as not configured:
  a cluster without API server access profile, AAD profile, local-accounts flag, agent
  pool profiles, tags or SKU is reported broken by aks-004, aks-007, aks-009, aks-014,
  aks-015 and aks-005. When the diagnostics lookup returns an error, evh-001 and aks-001
  end the process with \<open>log.Fatalf\<close>.
\<close>

theorem rule_predicates_return:
  "(ID r = Some rid \<and> Name r = Some n \<and> SKU r = Some s \<and> SkuName s = Some k \<and>
    Properties r = Some p \<and> ZoneRedundant p = Some z \<and>
    HasDiagnostics (diagnosticsSettings a) rid = Inr h \<longrightarrow>
      (\<forall>entry \<in> set (evh_GetRules a). \<exists>b d. Eval (snd entry) r scanContext = Inr (b, d))) \<and>
   (ID c = Some cid \<and> Name c = Some cn \<and> Properties c = Some cp \<and>
    EnableRBAC cp = Some rbac \<and> NetworkProfile cp = Some np \<and>
    OutboundType np = Some ot \<and> NetworkPlugin np = Some pl \<and>
    (\<forall>ap. AddonProfiles cp ''httpApplicationRouting'' = Some ap \<longrightarrow> Enabled ap \<noteq> None) \<and>
    (\<forall>ap. AddonProfiles cp ''omsagent'' = Some ap \<longrightarrow> Enabled ap \<noteq> None) \<and>
    HasDiagnostics (diagnosticsSettings a) cid = Inr ch \<longrightarrow>
      (\<forall>entry \<in> set (aks_GetRules a). \<exists>b d. Eval (snd entry) c scanContext = Inr (b, d))) \<and>
   (ID w = Some wid \<and> Name w = Some wn \<and> SKU w = Some ws \<and> SkuName ws = Some wk \<and>
    Properties w = Some wp \<and> Parameters wp = Some wps \<longrightarrow>
      (\<forall>entry \<in> set (dbw_GetRecommendations m).
          \<exists>b d. Eval (snd entry) w scanContext = Inr (b, d))) \<and>
   (Properties c = Some cp \<longrightarrow>
      (APIServerAccessProfile cp = None \<longrightarrow> aks_004 c scanContext = Inr (True, '''')) \<and>
      (AADProfile cp = None \<longrightarrow> aks_007 c scanContext = Inr (True, '''')) \<and>
      (DisableLocalAccounts cp = None \<longrightarrow> aks_009 c scanContext = Inr (True, '''')) \<and>
      (AgentPoolProfiles cp = None \<longrightarrow> aks_014 c scanContext = Inr (True, ''''))) \<and>
   (Tags c = None \<longrightarrow> aks_015 c scanContext = Inr (True, '''')) \<and>
   (SKU c = None \<longrightarrow> aks_005 c scanContext = Inr (True, ''Free'')) \<and>
   (ID r = Some rid \<and> Name r = Some n \<and>
    HasDiagnostics (diagnosticsSettings a) rid = Inl err \<longrightarrow>
      evh_001 a r scanContext =
        Inl (Fatal (''Error checking diagnostic settings for service '' @ n @ '': '' @ err))) \<and>
   (ID c = Some cid \<and> Name c = Some cn \<and>
    HasDiagnostics (diagnosticsSettings a) cid = Inl err \<longrightarrow>
      aks_001 a c scanContext =
        Inl (Fatal (''Error checking diagnostic settings for service '' @ cn @ '': '' @ err)))"
proof (intro conjI impI)
  assume "ID r = Some rid \<and> Name r = Some n \<and> SKU r = Some s \<and> SkuName s = Some k \<and>
    Properties r = Some p \<and> ZoneRedundant p = Some z \<and>
    HasDiagnostics (diagnosticsSettings a) rid = Inr h"
  then show "\<forall>entry \<in> set (evh_GetRules a). \<exists>b d. Eval (snd entry) r scanContext = Inr (b, d)"
    using evh_rules_return by blast
next
  assume "ID c = Some cid \<and> Name c = Some cn \<and> Properties c = Some cp \<and>
    EnableRBAC cp = Some rbac \<and> NetworkProfile cp = Some np \<and>
    OutboundType np = Some ot \<and> NetworkPlugin np = Some pl \<and>
    (\<forall>ap. AddonProfiles cp ''httpApplicationRouting'' = Some ap \<longrightarrow> Enabled ap \<noteq> None) \<and>
    (\<forall>ap. AddonProfiles cp ''omsagent'' = Some ap \<longrightarrow> Enabled ap \<noteq> None) \<and>
    HasDiagnostics (diagnosticsSettings a) cid = Inr ch"
  then show "\<forall>entry \<in> set (aks_GetRules a). \<exists>b d. Eval (snd entry) c scanContext = Inr (b, d)"
    using aks_rules_return [of c cid cn cp rbac np ot pl a ch scanContext] by blast
next
  assume "ID w = Some wid \<and> Name w = Some wn \<and> SKU w = Some ws \<and> SkuName ws = Some wk \<and>
    Properties w = Some wp \<and> Parameters wp = Some wps"
  then show "\<forall>entry \<in> set (dbw_GetRecommendations m).
          \<exists>b d. Eval (snd entry) w scanContext = Inr (b, d)"
    using dbw_rules_return by blast
next
  assume "Properties c = Some cp" and "APIServerAccessProfile cp = None"
  then show "aks_004 c scanContext = Inr (True, '''')"
    by (simp add: aks_004_def)
next
  assume "Properties c = Some cp" and "AADProfile cp = None"
  then show "aks_007 c scanContext = Inr (True, '''')"
    by (simp add: aks_007_def)
next
  assume "Properties c = Some cp" and "DisableLocalAccounts cp = None"
  then show "aks_009 c scanContext = Inr (True, '''')"
    by (simp add: aks_009_def)
next
  assume "Properties c = Some cp" and "AgentPoolProfiles cp = None"
  then show "aks_014 c scanContext = Inr (True, '''')"
    by (simp add: aks_014_def)
next
  assume "Tags c = None"
  then show "aks_015 c scanContext = Inr (True, '''')"
    by (simp add: aks_015_def)
next
  assume "SKU c = None"
  then show "aks_005 c scanContext = Inr (True, ''Free'')"
    by (simp add: aks_005_def sku_tier_def)
next
  assume "ID r = Some rid \<and> Name r = Some n \<and>
    HasDiagnostics (diagnosticsSettings a) rid = Inl err"
  then show "evh_001 a r scanContext =
        Inl (Fatal (''Error checking diagnostic settings for service '' @ n @ '': '' @ err))"
    using evh_001_lookup_fatal by blast
next
  assume "ID c = Some cid \<and> Name c = Some cn \<and>
    HasDiagnostics (diagnosticsSettings a) cid = Inl err"
  then show "aks_001 a c scanContext =
        Inl (Fatal (''Error checking diagnostic settings for service '' @ cn @ '': '' @ err))"
    using aks_001_lookup_fatal by blast
qed

theorem rule_predicates_return_witness:
  "map (\<lambda>entry.
          Eval (snd entry)
            \<lparr>ID = Some ''/s1/rg/evh-a'', Name = Some ''evh-a'', Type = Some ''T'',
             Location = Some ''west'',
             SKU = Some \<lparr>SkuName = Some ''Standard'', Tier = None\<rparr>, Tags = None,
             Properties = Some \<lparr>ZoneRedundant = Some False, evh_PrivateEndpointConnections = []\<rparr>\<rparr>
            \<lparr>DiagnosticsSettings = Map.empty\<rparr>)
        (evh_GetRules \<lparr>diagnosticsSettings = \<lparr>HasDiagnostics = (\<lambda>rid. Inr True)\<rparr>\<rparr>)
     = [Inr (False, ''true''), Inr (True, ''false''), Inr (False, ''99.95%''),
        Inr (True, ''false''), Inr (False, ''Standard''), Inr (False, ''true'')] \<and>
   map (\<lambda>entry.
          Eval (snd entry)
            \<lparr>ID = Some ''/s1/rg/aks-a'', Name = Some ''aks-a'', Type = Some ''T'',
             Location = Some ''west'', SKU = None, Tags = None,
             Properties = Some
               \<lparr>AgentPoolProfiles = None, APIServerAccessProfile = None, AADProfile = None,
                EnableRBAC = Some True, DisableLocalAccounts = None, AddonProfiles = Map.empty,
                NetworkProfile = Some
                  \<lparr>OutboundType = Some ''loadBalancer'', NetworkPlugin = Some ''azure''\<rparr>\<rparr>\<rparr>
            \<lparr>DiagnosticsSettings = Map.empty\<rparr>)
        (aks_GetRules \<lparr>diagnosticsSettings = \<lparr>HasDiagnostics = (\<lambda>rid. Inr True)\<rparr>\<rparr>)
     = [Inr (False, ''''), Inr (False, ''''), Inr (True, ''None''), Inr (True, ''''),
        Inr (True, ''Free''), Inr (False, ''''), Inr (True, ''''), Inr (False, ''''),
        Inr (True, ''''), Inr (False, ''''), Inr (True, ''''), Inr (True, ''''),
        Inr (False, ''''), Inr (True, ''''), Inr (True, '''')] \<and>
   map (\<lambda>entry.
          Eval (snd entry)
            \<lparr>ID = Some ''/s1/rg/dbw-a'', Name = Some ''dbw-a'', Type = Some ''T'',
             Location = Some ''west'',
             SKU = Some \<lparr>SkuName = Some ''premium'', Tier = None\<rparr>, Tags = None,
             Properties = Some
               \<lparr>dbw_PrivateEndpointConnections = [],
                Parameters = Some \<lparr>EnableNoPublicIP = None\<rparr>\<rparr>\<rparr>
            \<lparr>DiagnosticsSettings = Map.empty\<rparr>)
        (dbw_GetRecommendations [])
     = [Inr (True, ''''), Inr (False, ''99.95%''), Inr (True, ''''),
        Inr (False, ''premium''), Inr (False, ''''), Inr (False, '''')]"
  using rule_predicates_return [where
      r = "\<lparr>ID = Some ''/s1/rg/evh-a'', Name = Some ''evh-a'', Type = Some ''T'',
             Location = Some ''west'',
             SKU = Some \<lparr>SkuName = Some ''Standard'', Tier = None\<rparr>, Tags = None,
             Properties = Some \<lparr>ZoneRedundant = Some False, evh_PrivateEndpointConnections = []\<rparr>\<rparr>"
      and rid = "''/s1/rg/evh-a''" and n = "''evh-a''"
      and s = "\<lparr>SkuName = Some ''Standard'', Tier = None\<rparr>" and k = "''Standard''"
      and p = "\<lparr>ZoneRedundant = Some False, evh_PrivateEndpointConnections = []\<rparr>"
      and z = False and h = True
      and a = "\<lparr>diagnosticsSettings = \<lparr>HasDiagnostics = (\<lambda>rid. Inr True)\<rparr>\<rparr>"
      and scanContext = "\<lparr>DiagnosticsSettings = Map.empty\<rparr>"
      and c = "\<lparr>ID = Some ''/s1/rg/aks-a'', Name = Some ''aks-a'', Type = Some ''T'',
             Location = Some ''west'', SKU = None, Tags = None,
             Properties = Some
               \<lparr>AgentPoolProfiles = None, APIServerAccessProfile = None, AADProfile = None,
                EnableRBAC = Some True, DisableLocalAccounts = None, AddonProfiles = Map.empty,
                NetworkProfile = Some
                  \<lparr>OutboundType = Some ''loadBalancer'', NetworkPlugin = Some ''azure''\<rparr>\<rparr>\<rparr>"
      and cid = "''/s1/rg/aks-a''" and cn = "''aks-a''"
      and cp = "\<lparr>AgentPoolProfiles = None, APIServerAccessProfile = None, AADProfile = None,
                EnableRBAC = Some True, DisableLocalAccounts = None, AddonProfiles = Map.empty,
                NetworkProfile = Some
                  \<lparr>OutboundType = Some ''loadBalancer'', NetworkPlugin = Some ''azure''\<rparr>\<rparr>"
      and rbac = True
      and np = "\<lparr>OutboundType = Some ''loadBalancer'', NetworkPlugin = Some ''azure''\<rparr>"
      and ot = "''loadBalancer''" and pl = "''azure''" and ch = True
      and w = "\<lparr>ID = Some ''/s1/rg/dbw-a'', Name = Some ''dbw-a'', Type = Some ''T'',
             Location = Some ''west'',
             SKU = Some \<lparr>SkuName = Some ''premium'', Tier = None\<rparr>, Tags = None,
             Properties = Some
               \<lparr>dbw_PrivateEndpointConnections = [],
                Parameters = Some \<lparr>EnableNoPublicIP = None\<rparr>\<rparr>\<rparr>"
      and wid = "''/s1/rg/dbw-a''" and wn = "''dbw-a''"
      and ws = "\<lparr>SkuName = Some ''premium'', Tier = None\<rparr>" and wk = "''premium''"
      and wp = "\<lparr>dbw_PrivateEndpointConnections = [],
                Parameters = Some \<lparr>EnableNoPublicIP = None\<rparr>\<rparr>"
      and wps = "\<lparr>EnableNoPublicIP = None\<rparr>" and m = "[]" and err = "''unused''"]
  by (simp add: evh_GetRules_def evh_001_def evh_002_def evh_003_def evh_004_def evh_005_def
        evh_006_def aks_GetRules_def aks_001_def aks_002_def aks_003_def aks_004_def aks_005_def
        aks_006_def aks_007_def aks_008_def aks_009_def aks_010_def aks_011_def aks_012_def
        aks_013_def aks_014_def aks_015_def sku_tier_def OutboundTypeUserDefinedRouting_def
        NetworkPluginKubenet_def dbw_GetRecommendations_def dbw_001_def dbw_003_def dbw_004_def
        dbw_005_def dbw_006_def dbw_007_def ToLower_def lower_char_def upper_lower_def
        FormatBool_def Let_def)

text \<open>
  The claim as first stated has every predicate defined on every resource. A diagnostics
  lookup that fails ends the process in evh-001; and a namespace without
  \<open>ZoneRedundant\<close>, or a cluster without \<open>EnableRBAC\<close>, makes evh-002, or aks-008, read
  through \<open>nil\<close>.
\<close>

theorem rule_predicates_fault_counterexample:
  "evh_001 \<lparr>diagnosticsSettings = \<lparr>HasDiagnostics = (\<lambda>rid. Inl ''context deadline exceeded'')\<rparr>\<rparr>
     \<lparr>ID = Some ''/s1/rg/evh-a'', Name = Some ''evh-a'', Type = Some ''T'',
      Location = Some ''west'',
      SKU = Some \<lparr>SkuName = Some ''Standard'', Tier = None\<rparr>, Tags = None,
      Properties = Some \<lparr>ZoneRedundant = Some False, evh_PrivateEndpointConnections = []\<rparr>\<rparr>
     \<lparr>DiagnosticsSettings = Map.empty\<rparr>
   = Inl (Fatal ''Error checking diagnostic settings for service evh-a: context deadline exceeded'') \<and>
   evh_002
     \<lparr>ID = Some ''/s1/rg/evh-b'', Name = Some ''evh-b'', Type = Some ''T'',
      Location = Some ''west'',
      SKU = Some \<lparr>SkuName = Some ''Basic'', Tier = None\<rparr>, Tags = None,
      Properties = Some \<lparr>ZoneRedundant = None, evh_PrivateEndpointConnections = []\<rparr>\<rparr>
     \<lparr>DiagnosticsSettings = Map.empty\<rparr>
   = Inl NilPointerDereference \<and>
   aks_008
     \<lparr>ID = Some ''/s1/rg/aks-b'', Name = Some ''aks-b'', Type = Some ''T'',
      Location = Some ''west'', SKU = None, Tags = None,
      Properties = Some
        \<lparr>AgentPoolProfiles = None, APIServerAccessProfile = None, AADProfile = None,
         EnableRBAC = None, DisableLocalAccounts = None, AddonProfiles = Map.empty,
         NetworkProfile = None\<rparr>\<rparr>
     \<lparr>DiagnosticsSettings = Map.empty\<rparr>
   = Inl NilPointerDereference"
  by (simp add: evh_001_def evh_002_def aks_008_def)

section \<open>What a rule predicate depends on\<close>





end
